theory Spec2Isabelle
  imports Main "HOL-Library.Sublist"
begin

section \<open>The batch queue controller of main.py\<close>

text \<open>
  The program keeps one global dictionary \<^verbatim>\<open>current_batch\<close> and one asyncio task
  \<^verbatim>\<open>self.processing_task\<close> that runs \<^verbatim>\<open>process_batch\<close>. Command handlers and the
  task mutate the dictionary; the task gives up control only at an \<^verbatim>\<open>await\<close>.

  The model is a record of the dictionary's keys, extended by the task's program point
  and by the list of calls made to the Telegram API so far. Every source function is a
  function from state to state. What the collaborators answer (the downloader, the upload
  of a video) is a parameter of type \<open>outcome\<close>. Calls that notify the operator
  (\<^verbatim>\<open>send_message\<close>, \<^verbatim>\<open>send_document\<close>, \<^verbatim>\<open>reply_text\<close>, \<^verbatim>\<open>reply_document\<close>,
  \<^verbatim>\<open>edit_message_text\<close>) are taken to succeed, and a message is modelled by its kind and
  the values interpolated into it, not by its rendered text.
\<close>

subsection \<open>Data\<close>

text \<open>The nested dictionary \<^verbatim>\<open>caption_settings\<close>: keys \<^verbatim>\<open>active\<close>, \<^verbatim>\<open>remaining\<close>,
  \<^verbatim>\<open>text\<close> (prefixed here, since \<^verbatim>\<open>remaining\<close> is also a key of the batch).\<close>

record caption_settings =
  cs_active :: bool
  cs_remaining :: int
  cs_text :: "string option"

text \<open>\<^verbatim>\<open>datetime.now()\<close>: only whether \<^verbatim>\<open>start_time\<close> is set is modelled.\<close>

datatype stamp = Now

text \<open>The global \<^verbatim>\<open>current_batch\<close> (lines 33-50).\<close>

record current_batch =
  all_links :: "string list"
  processed :: int
  failed :: "string list"
  remaining :: "string list"
  start_time :: "stamp option"
  user_id :: "int option"
  last_processed_link :: "string option"
  is_processing :: bool
  is_paused :: bool
  status_message_id :: "nat option"
  last_auto_send :: int
  caption_settings :: caption_settings

text \<open>Where the task running \<^verbatim>\<open>process_batch\<close> stands. \<open>No_Task\<close>: there is no task,
  or it is done. \<open>At_Head\<close>: about to test \<^verbatim>\<open>while current_batch['remaining']\<close> (line 631).
  \<open>Parked\<close>: inside \<^verbatim>\<open>while current_batch['is_paused']\<close>, asleep (lines 633-635).
  \<open>In_Fetch url\<close>: inside \<^verbatim>\<open>process_single_link(url)\<close>, suspended at the download
  (line 529); the commands that arrive while an item is in flight run here.\<close>

datatype task = No_Task | At_Head | Parked | In_Fetch string

text \<open>The phases of the live status message.\<close>

datatype phase =
    Downloading string
  | Failed_With string string
  | Preparing_Upload string
  | Uploading string
  | Paused_Status
  | Resuming_Status

text \<open>The texts of \<^verbatim>\<open>update.message.reply_text\<close>.\<close>

datatype reply =
    Positive_Caption_Count
  | Caption_Set int string
  | Positive_Skip_Count
  | No_Batch_To_Skip
  | Skip_Cancels int nat
  | Resumed_From int
  | No_Remaining
  | Nothing_To_Pause
  | Already_Paused
  | Paused_Now
  | Not_Paused
  | Resumed_Now
  | Already_Empty
  | Cleared nat
  | Batch_Started nat
  | Links_Added nat nat

text \<open>The calls made to the Telegram API. \<open>Completion url success error_msg processed\<close>
  is the message of \<^verbatim>\<open>send_completion_notification\<close>; \<open>Remain_File lines processed\<close> the
  document of \<^verbatim>\<open>send_remain_links\<close>; \<open>Video url caption delivered\<close> the call of
  \<^verbatim>\<open>send_video\<close> with the payload of \<open>url\<close>, and whether it returned or raised;
  \<open>Skipped_File\<close> and \<open>Remain_Reply\<close> the documents of \<^verbatim>\<open>skip_links\<close> and
  \<^verbatim>\<open>show_remain\<close>.\<close>

datatype message =
    Status_Message phase
  | Status_Edit nat phase
  | Completion string bool string int
  | Remain_File "string list" int
  | Caption_Disabled
  | Video string "string option" bool
  | Batch_Completed int nat
  | Batch_Error string
  | Reply reply
  | Skipped_File "string list" int
  | Remain_Reply "string list" int

record bot = current_batch +
  processing_task :: task
  outbox :: "message list"

text \<open>What the collaborators do during one attempt, by the first point that fails.
  \<open>Fetch_None\<close>: \<^verbatim>\<open>get_highest_quality_video\<close> returns \<^verbatim>\<open>None\<close> (the size limit, and
  every error it catches itself). \<open>Fetch_Missing\<close>: it returns a path that does not
  exist. \<open>Open_Fails e\<close>: \<^verbatim>\<open>open(video_path)\<close> raises. \<open>Publish_Fails e\<close>:
  \<^verbatim>\<open>send_video\<close> raises. \<open>Published\<close>: \<^verbatim>\<open>send_video\<close> returns.\<close>

datatype outcome = Fetch_None | Fetch_Missing | Open_Fails string | Publish_Fails string | Published

subsection \<open>Initial state and helpers\<close>

definition no_caption :: caption_settings where
  "no_caption = \<lparr>cs_active = False, cs_remaining = 0, cs_text = None\<rparr>"

definition init :: bot where
  "init = \<lparr>all_links = [], processed = 0, failed = [], remaining = [], start_time = None,
     user_id = None, last_processed_link = None, is_processing = False, is_paused = False,
     status_message_id = None, last_auto_send = 0, caption_settings = no_caption,
     processing_task = No_Task, outbox = []\<rparr>"

definition send :: "message \<Rightarrow> bot \<Rightarrow> bot" where
  "send m s = s\<lparr>outbox := outbox s @ [m]\<rparr>"

text \<open>\<^verbatim>\<open>url.startswith('http://') or url.startswith('https://')\<close> (line 642).\<close>

definition valid_scheme :: "string \<Rightarrow> bool" where
  "valid_scheme url = (prefix ''http://'' url \<or> prefix ''https://'' url)"

text \<open>\<^verbatim>\<open>not current_batch['user_id']\<close>: \<^verbatim>\<open>None\<close> and \<^verbatim>\<open>0\<close> are both falsy.\<close>

definition user_unset :: "bot \<Rightarrow> bool" where
  "user_unset s = (case user_id s of None \<Rightarrow> True | Some u \<Rightarrow> u = 0)"

subsection \<open>Notifier\<close>

text \<open>\<^verbatim>\<open>update_status_message\<close> (lines 163-179). A new message gets the next message id,
  its position among the calls made.\<close>

definition new_status :: "phase \<Rightarrow> bot \<Rightarrow> bot" where
  "new_status ph s = (send (Status_Message ph) s)\<lparr>status_message_id := Some (Suc (length (outbox s)))\<rparr>"

definition update_status_message :: "phase \<Rightarrow> bot \<Rightarrow> bot" where
  "update_status_message ph s =
     (case status_message_id s of
        None \<Rightarrow> new_status ph s
      | Some i \<Rightarrow> if i \<noteq> 0 then send (Status_Edit i ph) s else new_status ph s)"

text \<open>\<^verbatim>\<open>send_remain_links\<close> (lines 473-507).\<close>

definition send_remain_links :: "bot \<Rightarrow> bot" where
  "send_remain_links s =
     (if remaining s = [] \<or> user_unset s then s
      else if processed s - last_auto_send s < 5 then s
      else send (Remain_File (remaining s) (processed s)) (s\<lparr>last_auto_send := processed s\<rparr>))"

text \<open>\<^verbatim>\<open>send_completion_notification\<close> (lines 181-212).\<close>

definition send_completion_notification :: "string \<Rightarrow> bool \<Rightarrow> string \<Rightarrow> bot \<Rightarrow> bot" where
  "send_completion_notification url success error_msg s =
     (let n = processed s;
          s1 = send (Completion url success error_msg n) s;
          s2 = s1\<lparr>status_message_id := None\<rparr>
      in if n > 0 \<and> n mod 5 = 0 then send_remain_links s2 else s2)"

subsection \<open>One item\<close>

text \<open>Lines 515-526 of \<^verbatim>\<open>process_single_link\<close>, up to the download.\<close>

definition single_link_start :: "string \<Rightarrow> bot \<Rightarrow> bot" where
  "single_link_start url s =
     update_status_message (Downloading url) (s\<lparr>last_processed_link := Some url\<rparr>)"

text \<open>The failure handling, the same on both paths (lines 532-553 and 604-616): the
  status shows the error, the link is appended to \<^verbatim>\<open>failed\<close>, the completion is sent.\<close>

definition link_failed :: "string \<Rightarrow> string \<Rightarrow> bot \<Rightarrow> bot" where
  "link_failed url error_msg s =
     (let s1 = update_status_message (Failed_With url error_msg) s;
          s2 = s1\<lparr>failed := failed s1 @ [url]\<rparr>
      in send_completion_notification url False error_msg s2)"

text \<open>The caption handling (lines 576-587): the caption to attach, and the state.\<close>

definition handle_caption :: "bot \<Rightarrow> string option \<times> bot" where
  "handle_caption s =
     (let cs = caption_settings s in
      if cs_active cs then
        (let cs1 = cs\<lparr>cs_remaining := cs_remaining cs - 1\<rparr> in
         if cs_remaining cs1 \<le> 0
         then (cs_text cs, send Caption_Disabled (s\<lparr>caption_settings := cs1\<lparr>cs_active := False\<rparr>\<rparr>))
         else (cs_text cs, s\<lparr>caption_settings := cs1\<rparr>))
      else (None, s))"

text \<open>Lines 555-574: the two status updates before the upload.\<close>

definition before_upload :: "string \<Rightarrow> bot \<Rightarrow> bot" where
  "before_upload url s =
     update_status_message (Uploading url) (update_status_message (Preparing_Upload url) s)"

text \<open>Lines 529-623 of \<^verbatim>\<open>process_single_link\<close>, from the download's answer on.\<close>

definition single_link_rest :: "string \<Rightarrow> outcome \<Rightarrow> bot \<Rightarrow> bot" where
  "single_link_rest url oc s =
     (case oc of
        Fetch_None \<Rightarrow> link_failed url ''Video exceeds 49MB limit'' s
      | Fetch_Missing \<Rightarrow> link_failed url ''Download failed'' s
      | Open_Fails e \<Rightarrow> link_failed url e (update_status_message (Preparing_Upload url) s)
      | Publish_Fails e \<Rightarrow>
          (case handle_caption (before_upload url s) of
             (cap, s1) \<Rightarrow> link_failed url e (send (Video url cap False) s1))
      | Published \<Rightarrow>
          (case handle_caption (before_upload url s) of
             (cap, s1) \<Rightarrow>
               (let s2 = send (Video url cap True) s1;
                    s3 = s2\<lparr>processed := processed s2 + 1\<rparr>
                in send_completion_notification url True [] s3)))"

text \<open>\<^verbatim>\<open>process_single_link\<close> (lines 509-623) as a whole. Its boolean result, which the
  caller ignores, is \<open>oc = Published\<close>.\<close>

definition process_single_link :: "string \<Rightarrow> outcome \<Rightarrow> bot \<Rightarrow> bot" where
  "process_single_link url oc s = single_link_rest url oc (single_link_start url s)"

subsection \<open>The processing loop\<close>

text \<open>The \<^verbatim>\<open>finally\<close> of \<^verbatim>\<open>process_batch\<close> (lines 667-669); the task is done after it.\<close>

definition loop_finally :: "bot \<Rightarrow> bot" where
  "loop_finally s = s\<lparr>is_processing := False, status_message_id := None, processing_task := No_Task\<rparr>"

text \<open>\<^verbatim>\<open>except Exception\<close> (lines 661-666).\<close>

definition loop_fatal :: "string \<Rightarrow> bot \<Rightarrow> bot" where
  "loop_fatal e s = loop_finally (send (Batch_Error e) s)"

text \<open>Leaving the \<^verbatim>\<open>while\<close> (lines 649-658): the final report unless cancelled.\<close>

definition loop_exit :: "bot \<Rightarrow> bot" where
  "loop_exit s =
     loop_finally (if is_processing s
                   then send (Batch_Completed (processed s) (length (failed s))) s else s)"

text \<open>Lines 637-646, after the pause check: the cancellation check, the head of the queue,
  the scheme check, and the entry into \<^verbatim>\<open>process_single_link\<close>. \<^verbatim>\<open>remaining[0]\<close> on an
  empty list raises IndexError, which the loop's \<^verbatim>\<open>except Exception\<close> catches.\<close>

definition loop_body :: "bot \<Rightarrow> bot" where
  "loop_body s =
     (if \<not> is_processing s then loop_exit s
      else case remaining s of
        [] \<Rightarrow> loop_fatal ''list index out of range'' s
      | url # _ \<Rightarrow>
          if \<not> valid_scheme url
          then s\<lparr>remaining := remove1 url (remaining s), processing_task := At_Head\<rparr>
          else (single_link_start url s)\<lparr>processing_task := In_Fetch url\<rparr>)"

text \<open>Line 631 and the first test of line 633.\<close>

definition loop_head :: "bot \<Rightarrow> bot" where
  "loop_head s =
     (if remaining s = [] then loop_exit s
      else if is_paused s then s\<lparr>processing_task := Parked\<rparr>
      else loop_body s)"

text \<open>Lines 633-635: awake after \<^verbatim>\<open>asyncio.sleep(1)\<close>, the flag is tested again.\<close>

definition loop_parked :: "bot \<Rightarrow> bot" where
  "loop_parked s = (if is_paused s then s else loop_body s)"

text \<open>The rest of \<^verbatim>\<open>process_single_link\<close> and line 647. \<^verbatim>\<open>list.remove\<close> deletes the first
  occurrence and raises ValueError when there is none.\<close>

definition loop_item_done :: "string \<Rightarrow> outcome \<Rightarrow> bot \<Rightarrow> bot" where
  "loop_item_done url oc s =
     (let s1 = single_link_rest url oc s in
      if url \<in> set (remaining s1)
      then s1\<lparr>remaining := remove1 url (remaining s1), processing_task := At_Head\<rparr>
      else loop_fatal ''list.remove(x): x not in list'' s1)"

text \<open>One step of the task, from one suspension point to the next; \<open>oc\<close> is read only
  when an item is in flight.\<close>

definition process_batch_step :: "outcome \<Rightarrow> bot \<Rightarrow> bot" where
  "process_batch_step oc s =
     (case processing_task s of
        No_Task \<Rightarrow> s
      | At_Head \<Rightarrow> loop_head s
      | Parked \<Rightarrow> loop_parked s
      | In_Fetch url \<Rightarrow> loop_item_done url oc s)"

text \<open>\<^verbatim>\<open>asyncio.create_task(self.process_batch(context))\<close> with the first two statements of
  \<^verbatim>\<open>process_batch\<close> (lines 627-628), which run before the task first suspends.\<close>

definition create_task :: "bot \<Rightarrow> bot" where
  "create_task s = s\<lparr>is_processing := True, start_time := Some Now, processing_task := At_Head\<rparr>"

text \<open>\<^verbatim>\<open>self.processing_task.cancel()\<close> and \<^verbatim>\<open>await self.processing_task\<close> (lines 321-326,
  445-450): CancelledError is raised at the task's suspension point, is not an
  \<^verbatim>\<open>Exception\<close>, and reaches line 659; the \<^verbatim>\<open>finally\<close> runs and the task is done.\<close>

definition cancel_task :: "bot \<Rightarrow> bot" where
  "cancel_task s = (if processing_task s = No_Task then s else loop_finally s)"

text \<open>The task run alone, with no command in between, the attempts answering \<open>ocs\<close> in
  order. \<open>None\<close>: the fuel ran out, or an attempt had no answer left.\<close>

fun process_batch_run :: "nat \<Rightarrow> outcome list \<Rightarrow> bot \<Rightarrow> bot option" where
  "process_batch_run 0 ocs s = (if processing_task s = No_Task then Some s else None)"
| "process_batch_run (Suc k) ocs s =
     (case processing_task s of
        No_Task \<Rightarrow> Some s
      | In_Fetch url \<Rightarrow>
          (case ocs of
             [] \<Rightarrow> None
           | oc # rest \<Rightarrow> process_batch_run k rest (process_batch_step oc s))
      | _ \<Rightarrow> process_batch_run k ocs (process_batch_step Published s))"

text \<open>The steps that the task takes while a handler is suspended at an \<^verbatim>\<open>await\<close>, one
  step for each element of the list, which gives the attempt's answer when an item is in
  flight.\<close>

fun task_steps :: "outcome list \<Rightarrow> bot \<Rightarrow> bot" where
  "task_steps [] s = s"
| "task_steps (oc # ocs) s = task_steps ocs (process_batch_step oc s)"

subsection \<open>Commands\<close>

text \<open>Every handler starts with \<^verbatim>\<open>if not await self.is_admin(update): return\<close>. The
  constant \<^verbatim>\<open>ADMIN_UID\<close> is blanked in the source, so it is the parameter \<open>admin\<close>;
  \<open>uid\<close> is \<^verbatim>\<open>update.effective_user.id\<close>. Numeric arguments arrive parsed: the
  handlers take the value of \<^verbatim>\<open>int(context.args[0])\<close>.

  Two handlers await a reply and read the batch again afterwards: \<^verbatim>\<open>skip_links\<close> at
  line 316, before it calls \<^verbatim>\<open>clear_queue\<close>, and \<^verbatim>\<open>add_links_to_queue\<close> at line 710,
  before it tests whether the loop has to be restarted. The task runs during such an
  \<^verbatim>\<open>await\<close>; the steps it takes there are the parameter \<open>during\<close>. In every other
  handler the batch is read and written with no \<^verbatim>\<open>await\<close> in between, or while the task
  is cancelled and done.\<close>

text \<open>\<^verbatim>\<open>set_caption\<close> (lines 265-295), from line 278.\<close>

definition set_caption :: "int \<Rightarrow> int \<Rightarrow> int \<Rightarrow> string \<Rightarrow> bot \<Rightarrow> bot" where
  "set_caption admin uid count caption_text s =
     (if uid \<noteq> admin then s
      else if count \<le> 0 then send (Reply Positive_Caption_Count) s
      else send (Reply (Caption_Set count caption_text))
             (s\<lparr>caption_settings :=
                  \<lparr>cs_active = True, cs_remaining = count, cs_text = Some caption_text\<rparr>\<rparr>))"

text \<open>The dictionary of \<^verbatim>\<open>current_batch.update\<close> in \<^verbatim>\<open>clear_queue\<close> (lines 453-470).\<close>

definition reset_batch :: "bot \<Rightarrow> bot" where
  "reset_batch s =
     s\<lparr>all_links := [], processed := 0, failed := [], remaining := [], start_time := None,
       user_id := None, last_processed_link := None, is_processing := False,
       is_paused := False, status_message_id := None, last_auto_send := 0,
       caption_settings := no_caption\<rparr>"

text \<open>\<^verbatim>\<open>clear_queue\<close> (lines 435-471).\<close>

definition clear_queue :: "int \<Rightarrow> int \<Rightarrow> bot \<Rightarrow> bot" where
  "clear_queue admin uid s =
     (if uid \<noteq> admin then s
      else if remaining s = [] then send (Reply Already_Empty) s
      else (let s1 = cancel_task s;
                count = length (remaining s1)
            in send (Reply (Cleared count)) (reset_batch s1)))"

text \<open>Line 316 of \<^verbatim>\<open>skip_links\<close>: the reply that the batch is cancelled.\<close>

definition skip_announced :: "int \<Rightarrow> bot \<Rightarrow> bot" where
  "skip_announced skip_count s = send (Reply (Skip_Cancels skip_count (length (remaining s)))) s"

text \<open>\<^verbatim>\<open>skip_links\<close> (lines 297-355), from line 306. The slices \<^verbatim>\<open>[:skip_count]\<close> and
  \<^verbatim>\<open>[skip_count:]\<close> are taken with a positive count. When the count covers the queue,
  the reply of line 316 is awaited, the task takes the steps \<open>during\<close>, and then
  \<^verbatim>\<open>clear_queue\<close> runs (line 317) on the state it finds.\<close>

definition skip_links :: "int \<Rightarrow> int \<Rightarrow> int \<Rightarrow> outcome list \<Rightarrow> bot \<Rightarrow> bot" where
  "skip_links admin uid skip_count during s =
     (if uid \<noteq> admin then s
      else if skip_count \<le> 0 then send (Reply Positive_Skip_Count) s
      else if \<not> is_processing s then send (Reply No_Batch_To_Skip) s
      else if skip_count \<ge> int (length (remaining s))
      then clear_queue admin uid (task_steps during (skip_announced skip_count s))
      else (let s1 = cancel_task s;
                skipped_links = take (nat skip_count) (remaining s1);
                s2 = s1\<lparr>remaining := drop (nat skip_count) (remaining s1),
                        processed := processed s1 + skip_count\<rparr>;
                s3 = send (Skipped_File skipped_links skip_count) s2;
                s4 = create_task (s3\<lparr>is_processing := True\<rparr>)
            in send (Reply (Resumed_From (skip_count + 1))) s4))"

text \<open>\<^verbatim>\<open>show_remain\<close> (lines 357-387).\<close>

definition show_remain :: "int \<Rightarrow> int \<Rightarrow> bot \<Rightarrow> bot" where
  "show_remain admin uid s =
     (if uid \<noteq> admin then s
      else if length (remaining s) = 0 then send (Reply No_Remaining) s
      else send (Remain_Reply (remaining s) (processed s)) s)"

text \<open>\<^verbatim>\<open>pause_processing\<close> (lines 389-409).\<close>

definition pause_processing :: "int \<Rightarrow> int \<Rightarrow> bot \<Rightarrow> bot" where
  "pause_processing admin uid s =
     (if uid \<noteq> admin then s
      else if \<not> is_processing s then send (Reply Nothing_To_Pause) s
      else if is_paused s then send (Reply Already_Paused) s
      else send (Reply Paused_Now) (update_status_message Paused_Status (s\<lparr>is_paused := True\<rparr>)))"

text \<open>\<^verbatim>\<open>resume_processing\<close> (lines 411-433).\<close>

definition resume_processing :: "int \<Rightarrow> int \<Rightarrow> bot \<Rightarrow> bot" where
  "resume_processing admin uid s =
     (if uid \<noteq> admin then s
      else if \<not> is_paused s then send (Reply Not_Paused) s
      else (let s1 = s\<lparr>is_paused := False\<rparr>;
                s2 = (if \<not> is_processing s1 then create_task (s1\<lparr>is_processing := True\<rparr>) else s1)
            in send (Reply Resumed_Now) (update_status_message Resuming_Status s2)))"

text \<open>Lines 703-714 of \<^verbatim>\<open>add_links_to_queue\<close>: the links are appended and the reply is
  sent.\<close>

definition append_links :: "string list \<Rightarrow> bot \<Rightarrow> bot" where
  "append_links links s =
     (let s1 = s\<lparr>all_links := all_links s @ links, remaining := remaining s @ links\<rparr>
      in send (Reply (Links_Added (length links) (length (all_links s1)))) s1)"

text \<open>\<^verbatim>\<open>add_links_to_queue\<close> (lines 671-719); its caller has checked the sender. With a
  batch in place, the reply of line 710 is awaited, the task takes the steps \<open>during\<close>,
  and then lines 716-719 restart the loop if it has ended and links remain.\<close>

definition add_links_to_queue :: "int \<Rightarrow> string list \<Rightarrow> outcome list \<Rightarrow> bot \<Rightarrow> bot" where
  "add_links_to_queue uid links during s =
     (if all_links s = [] then
        (let s1 = s\<lparr>all_links := links, processed := 0, failed := [], remaining := links,
                    user_id := Some uid, last_processed_link := None, is_processing := True,
                    is_paused := False, status_message_id := None, last_auto_send := 0,
                    caption_settings := no_caption\<rparr>;
             s2 = (if processing_task s1 = No_Task then create_task s1 else s1)
         in send (Reply (Batch_Started (length links))) s2)
      else
        (let s1 = task_steps during (append_links links s)
         in if \<not> is_processing s1 \<and> remaining s1 \<noteq> []
            then create_task (s1\<lparr>is_processing := True\<rparr>) else s1))"

subsection \<open>Reading the calls made\<close>

fun is_completion :: "message \<Rightarrow> bool" where
  "is_completion (Completion _ _ _ _) = True"
| "is_completion _ = False"

fun is_remain_file :: "message \<Rightarrow> bool" where
  "is_remain_file (Remain_File _ _) = True"
| "is_remain_file _ = False"

fun is_video :: "message \<Rightarrow> bool" where
  "is_video (Video _ _ _) = True"
| "is_video _ = False"

text \<open>The calls made between an earlier state and a later one.\<close>

definition emitted :: "bot \<Rightarrow> bot \<Rightarrow> message list" where
  "emitted s s' = drop (length (outbox s)) (outbox s')"

subsection \<open>What the notifier sends\<close>

text \<open>The call that \<open>update_status_message\<close> makes, and the handle it leaves.\<close>

definition status_call :: "phase \<Rightarrow> bot \<Rightarrow> message" where
  "status_call ph s =
     (case status_message_id s of
        None \<Rightarrow> Status_Message ph
      | Some i \<Rightarrow> if i \<noteq> 0 then Status_Edit i ph else Status_Message ph)"

definition status_id_after :: "bot \<Rightarrow> nat option" where
  "status_id_after s =
     (case status_message_id s of
        None \<Rightarrow> Some (Suc (length (outbox s)))
      | Some i \<Rightarrow> if i \<noteq> 0 then Some i else Some (Suc (length (outbox s))))"

text \<open>The three tests of \<open>send_remain_links\<close> (lines 475 and 483) together, and with
  the test of line 209 in front of them.\<close>

definition report_due :: "bot \<Rightarrow> bool" where
  "report_due s = (remaining s \<noteq> [] \<and> \<not> user_unset s \<and> processed s - last_auto_send s \<ge> 5)"

definition completion_report :: "bot \<Rightarrow> bool" where
  "completion_report s = (processed s > 0 \<and> processed s mod 5 = 0 \<and> report_due s)"

subsection \<open>States of example runs\<close>

text \<open>The operator, with \<^verbatim>\<open>ADMIN_UID = 1\<close>, sends two links; the task has entered
  \<open>process_single_link\<close> for the first. In these runs the task takes no step while a
  handler awaits a reply, unless a list of steps is given.\<close>

definition in_flight_x :: bot where
  "in_flight_x =
     process_batch_step Published (add_links_to_queue 1 [''http://x'', ''http://y''] [] init)"

text \<open>The operator sends one link; the task has entered \<open>process_single_link\<close> for it.
  Then \<^verbatim>\<open>/stopnow\<close> arrives, the upload succeeds, and the task tests the queue again.\<close>

definition in_flight_last :: bot where
  "in_flight_last = process_batch_step Published (add_links_to_queue 1 [''http://a''] [] init)"

definition exited_while_paused :: bot where
  "exited_while_paused =
     process_batch_step Published (process_batch_step Published
       (pause_processing 1 1 in_flight_last))"

text \<open>Ten links; two are published; \<^verbatim>\<open>/skip 7\<close>; the download of the last one returns
  \<^verbatim>\<open>None\<close>.\<close>

definition ten_links :: "string list" where
  "ten_links = [''http://0'', ''http://1'', ''http://2'', ''http://3'', ''http://4'',
     ''http://5'', ''http://6'', ''http://7'', ''http://8'', ''http://9'']"

definition two_done :: bot where
  "two_done =
     process_batch_step Published (process_batch_step Published
       (process_batch_step Published (process_batch_step Published
         (add_links_to_queue 1 ten_links [] init))))"

definition seven_skipped :: bot where
  "seven_skipped = skip_links 1 1 7 [] two_done"

definition tenth_failed :: bot where
  "tenth_failed = process_batch_step Fetch_None (process_batch_step Fetch_None seven_skipped)"

text \<open>A link without a scheme at the head of the queue, after the first link was published.\<close>

definition malformed_at_head :: bot where
  "malformed_at_head =
     process_batch_step Published (process_batch_step Published
       (add_links_to_queue 1 [''http://a'', ''not-a-url'', ''http://b''] [] init))"

text \<open>\<^verbatim>\<open>/cap 3 X\<close> arrives while the first of two links is in flight.\<close>

definition caption_set_in_flight :: bot where
  "caption_set_in_flight = set_caption 1 1 3 ''X'' in_flight_x"

text \<open>A batch of five links, all published.\<close>

definition five_published :: "bot option" where
  "five_published =
     process_batch_run 11 (replicate 5 Published)
       (add_links_to_queue 1 [''http://1'', ''http://2'', ''http://3'', ''http://4'', ''http://5'']
          [] init)"

subsection \<open>Predicates of the properties\<close>

text \<open>The attempts that get as far as the caption handling and \<^verbatim>\<open>send_video\<close>.\<close>

fun reaches_upload :: "outcome \<Rightarrow> bool" where
  "reaches_upload (Publish_Fails _) = True"
| "reaches_upload Published = True"
| "reaches_upload _ = False"

definition paused_implies_active :: "bot \<Rightarrow> bool" where
  "paused_implies_active s = (is_paused s \<longrightarrow> is_processing s)"

section \<open>Properties\<close>

lemma outbox_send: "outbox (send m s) = outbox s @ [m]"
  by (simp add: send_def)

subsection \<open>The notifier, as record updates\<close>

lemma update_status_message_eq:
  "update_status_message ph s =
     s\<lparr>status_message_id := status_id_after s, outbox := outbox s @ [status_call ph s]\<rparr>"
  by (simp add: update_status_message_def new_status_def send_def status_call_def
      status_id_after_def split: option.splits)

lemma status_call_kind [simp]:
  "\<not> is_completion (status_call ph s)" "\<not> is_remain_file (status_call ph s)"
  "\<not> is_video (status_call ph s)" "status_call ph s \<noteq> Caption_Disabled"
  by (simp_all add: status_call_def split: option.splits)

lemma send_remain_links_eq:
  "send_remain_links s =
     s\<lparr>last_auto_send := (if report_due s then processed s else last_auto_send s),
       outbox := outbox s @ (if report_due s then [Remain_File (remaining s) (processed s)] else [])\<rparr>"
  by (simp add: send_remain_links_def report_due_def send_def)

lemma report_due_cong:
  "remaining t = remaining s \<Longrightarrow> user_id t = user_id s \<Longrightarrow> processed t = processed s \<Longrightarrow>
   last_auto_send t = last_auto_send s \<Longrightarrow> report_due t = report_due s"
  by (simp add: report_due_def user_unset_def)

lemma send_completion_notification_eq:
  "send_completion_notification url ok err s =
     s\<lparr>status_message_id := None,
       last_auto_send := (if completion_report s then processed s else last_auto_send s),
       outbox := outbox s @ Completion url ok err (processed s) #
                 (if completion_report s then [Remain_File (remaining s) (processed s)] else [])\<rparr>"
proof -
  let ?t = "(send (Completion url ok err (processed s)) s)\<lparr>status_message_id := None\<rparr>"
  have rd: "report_due ?t = report_due s"
    by (rule report_due_cong) (simp_all add: send_def)
  show ?thesis
    by (simp add: send_completion_notification_def Let_def send_remain_links_eq rd
        completion_report_def)
       (simp add: send_def)
qed

lemma link_failed_eq:
  "link_failed url e s =
     s\<lparr>failed := failed s @ [url], status_message_id := None,
       last_auto_send := (if completion_report s then processed s else last_auto_send s),
       outbox := outbox s @ status_call (Failed_With url e) s # Completion url False e (processed s) #
                 (if completion_report s then [Remain_File (remaining s) (processed s)] else [])\<rparr>"
  by (simp add: link_failed_def Let_def update_status_message_eq send_completion_notification_eq
      completion_report_def report_due_def user_unset_def)

subsection \<open>Example runs, evaluated\<close>

lemmas run_defs = init_def no_caption_def send_def valid_scheme_def user_unset_def
  new_status_def update_status_message_def send_remain_links_def
  send_completion_notification_def single_link_start_def link_failed_def handle_caption_def
  before_upload_def single_link_rest_def loop_finally_def loop_fatal_def loop_exit_def
  loop_body_def loop_head_def loop_parked_def loop_item_done_def process_batch_step_def
  create_task_def cancel_task_def set_caption_def reset_batch_def clear_queue_def
  skip_links_def skip_announced_def pause_processing_def resume_processing_def
  append_links_def add_links_to_queue_def emitted_def Let_def

lemma in_flight_x_eq:
  "in_flight_x =
     \<lparr>all_links = [''http://x'', ''http://y''], processed = 0, failed = [],
      remaining = [''http://x'', ''http://y''], start_time = Some Now, user_id = Some 1,
      last_processed_link = Some ''http://x'', is_processing = True, is_paused = False,
      status_message_id = Some 2, last_auto_send = 0, caption_settings = no_caption,
      processing_task = In_Fetch ''http://x'',
      outbox = [Reply (Batch_Started 2), Status_Message (Downloading ''http://x'')]\<rparr>"
  by (simp add: in_flight_x_def run_defs)

subsection \<open>Failed attempts\<close>

text \<open>
  C1, as the code has it. An item is in flight and its attempt fails: the download gives
  nothing, or \<^verbatim>\<open>open\<close> or \<^verbatim>\<open>send_video\<close> raises. Then the task appends the link to
  \<^verbatim>\<open>failed\<close>, sends exactly one completion message, a failure one (with the size-limit
  text when the download returned \<^verbatim>\<open>None\<close>), removes the link from \<^verbatim>\<open>remaining\<close> and
  is back at the head of the loop. \<^verbatim>\<open>processed\<close> stays as it was: line 600, the only
  increment, is on the success path.
\<close>

theorem failed_attempt_recorded:
  assumes "processing_task s = In_Fetch url" and "url \<in> set (remaining s)" and "oc \<noteq> Published"
  shows "let s' = process_batch_step oc s in
     failed s' = failed s @ [url] \<and> processed s' = processed s \<and>
     (\<exists>e. filter is_completion (emitted s s') = [Completion url False e (processed s)] \<and>
          (oc = Fetch_None \<longrightarrow> e = ''Video exceeds 49MB limit'')) \<and>
     remaining s' = remove1 url (remaining s) \<and> processing_task s' = At_Head"
  using assms
  by (cases oc)
     (simp_all add: process_batch_step_def loop_item_done_def single_link_rest_def link_failed_eq
        before_upload_def handle_caption_def update_status_message_eq send_def emitted_def Let_def)

theorem failed_attempt_recorded_witness:
  "processing_task in_flight_x = In_Fetch ''http://x'' \<and>
   failed (process_batch_step Fetch_None in_flight_x) = [''http://x''] \<and>
   processed (process_batch_step Fetch_None in_flight_x) = 0 \<and>
   remaining (process_batch_step Fetch_None in_flight_x) = [''http://y''] \<and>
   processing_task (process_batch_step Fetch_None in_flight_x) = At_Head"
  using failed_attempt_recorded [of in_flight_x "''http://x''" Fetch_None]
  by (simp add: in_flight_x_eq Let_def)

text \<open>
  C1 as stated fails: the download of \<^verbatim>\<open>http://x\<close> returns \<^verbatim>\<open>None\<close> (the size limit);
  the link is in \<^verbatim>\<open>failed\<close>, and \<^verbatim>\<open>processed\<close> is not one larger.
\<close>

theorem size_exceeded_not_counted:
  "failed (process_batch_step Fetch_None in_flight_x) = [''http://x''] \<and>
   processed (process_batch_step Fetch_None in_flight_x) \<noteq> processed in_flight_x + 1"
  by (simp add: in_flight_x_eq run_defs)

subsection \<open>Skip\<close>

text \<open>
  C8. In an active state, \<^verbatim>\<open>/skip n\<close> from the operator with \<open>0 < n < |remaining|\<close>
  drops exactly the first \<open>n\<close> links of \<^verbatim>\<open>remaining\<close> and keeps the rest in order, adds
  \<open>n\<close> to \<^verbatim>\<open>processed\<close>, leaves \<^verbatim>\<open>failed\<close> alone, sends the skipped links as a document
  (and then the reply that processing resumed), and starts a new task at the head of the
  loop. On this path the handler awaits nothing before the task is cancelled, so the
  result is the same whatever \<open>during\<close> is.
\<close>

theorem skip_links_drops_first_n:
  assumes "uid = admin" and "is_processing s" and "0 < n" and "n < int (length (remaining s))"
  shows "let s' = skip_links admin uid n during s in
     remaining s' = drop (nat n) (remaining s) \<and>
     processed s' = processed s + n \<and>
     failed s' = failed s \<and>
     emitted s s' = [Skipped_File (take (nat n) (remaining s)) n, Reply (Resumed_From (n + 1))] \<and>
     processing_task s' = At_Head \<and> is_processing s'"
  using assms
  by (simp add: skip_links_def Let_def cancel_task_def loop_finally_def create_task_def send_def
      emitted_def)

theorem skip_links_drops_first_n_witness:
  "is_processing in_flight_x \<and> (1::int) < int (length (remaining in_flight_x)) \<and>
   remaining (skip_links 1 1 1 [Fetch_None] in_flight_x) = [''http://y''] \<and>
   processed (skip_links 1 1 1 [Fetch_None] in_flight_x) = 1 \<and>
   failed (skip_links 1 1 1 [Fetch_None] in_flight_x) = [] \<and>
   emitted in_flight_x (skip_links 1 1 1 [Fetch_None] in_flight_x) =
     [Skipped_File [''http://x''] 1, Reply (Resumed_From 2)] \<and>
   processing_task (skip_links 1 1 1 [Fetch_None] in_flight_x) = At_Head"
  using skip_links_drops_first_n [of 1 1 in_flight_x 1 "[Fetch_None]"]
  by (simp add: in_flight_x_eq Let_def)

subsection \<open>Pause\<close>

text \<open>
  C9. Pausing twice in a row leaves the batch as pausing once does, and the task where it
  was. When the sender is the operator, the second \<^verbatim>\<open>/stopnow\<close> only adds a reply, that
  processing is already paused or that there is nothing to pause; and a \<^verbatim>\<open>/stopnow\<close>
  while nothing is processing only adds the reply that there is nothing to pause.
\<close>

theorem pause_twice_is_pause_once:
  "current_batch.truncate (pause_processing admin uid (pause_processing admin uid s)) =
     current_batch.truncate (pause_processing admin uid s) \<and>
   processing_task (pause_processing admin uid (pause_processing admin uid s)) =
     processing_task (pause_processing admin uid s) \<and>
   (uid = admin \<longrightarrow>
      pause_processing admin uid (pause_processing admin uid s) =
        send (Reply (if is_processing s then Already_Paused else Nothing_To_Pause))
          (pause_processing admin uid s)) \<and>
   (uid = admin \<and> \<not> is_processing s \<longrightarrow>
      pause_processing admin uid s = send (Reply Nothing_To_Pause) s)"
  by (simp add: pause_processing_def send_def update_status_message_eq current_batch.truncate_def)

theorem pause_twice_is_pause_once_witness:
  "is_paused (pause_processing 1 1 in_flight_x) \<and>
   pause_processing 1 1 (pause_processing 1 1 in_flight_x) =
     send (Reply Already_Paused) (pause_processing 1 1 in_flight_x) \<and>
   pause_processing 1 1 init = send (Reply Nothing_To_Pause) init"
  using pause_twice_is_pause_once [of 1 1 in_flight_x] pause_twice_is_pause_once [of 1 1 init]
  by (simp add: in_flight_x_eq pause_processing_def send_def update_status_message_eq init_def)


text \<open>
  C4 as stated fails: two links are queued, none is processed yet, and \<^verbatim>\<open>/skip 2\<close>
  leaves \<^verbatim>\<open>processed\<close> at 0, not at 2.
\<close>

theorem skip_all_resets_processed:
  "is_processing in_flight_x \<and> length (remaining in_flight_x) = 2 \<and>
   processed (skip_links 1 1 2 [] in_flight_x) \<noteq> processed in_flight_x + 2"
  by (simp add: in_flight_x_eq run_defs)

lemma clear_queue_resets:
  "remaining t \<noteq> [] \<Longrightarrow>
   current_batch.truncate (clear_queue admin admin t) =
     \<lparr>all_links = [], processed = 0, failed = [], remaining = [], start_time = None,
      user_id = None, last_processed_link = None, is_processing = False, is_paused = False,
      status_message_id = None, last_auto_send = 0, caption_settings = no_caption\<rparr> \<and>
   processing_task (clear_queue admin admin t) = No_Task"
  by (simp add: clear_queue_def reset_batch_def cancel_task_def loop_finally_def send_def Let_def
      current_batch.truncate_def)

text \<open>
  C4, as the code has it. In an active state with a non-empty queue, \<^verbatim>\<open>/skip n\<close> from the
  operator with \<open>n \<ge> |remaining|\<close> sends its reply and then runs \<open>clear_queue\<close> on the
  state the task has reached while the reply was awaited. When the queue is still
  non-empty there, and so whenever the task took no step meanwhile, the batch ends as
  \<^verbatim>\<open>/clean\<close> leaves it, every key reset, \<^verbatim>\<open>processed\<close> to 0, and the task is done. When the
  task has emptied the queue meanwhile, \<open>clear_queue\<close> only replies that the queue is
  already empty and resets nothing.
\<close>

theorem skip_all_is_clear:
  assumes "uid = admin" and "is_processing s" and "remaining s \<noteq> []"
    and "n \<ge> int (length (remaining s))"
  shows "let t = task_steps during (skip_announced n s) in
     (remaining t \<noteq> [] \<longrightarrow>
        current_batch.truncate (skip_links admin uid n during s) =
          current_batch.truncate (clear_queue admin uid s) \<and>
        processed (skip_links admin uid n during s) = 0 \<and>
        processing_task (skip_links admin uid n during s) = No_Task) \<and>
     (remaining t = [] \<longrightarrow>
        skip_links admin uid n during s = send (Reply Already_Empty) t) \<and>
     current_batch.truncate (skip_links admin uid n [] s) =
       current_batch.truncate (clear_queue admin uid s) \<and>
     processed (skip_links admin uid n [] s) = 0 \<and>
     processing_task (skip_links admin uid n [] s) = No_Task"
proof -
  let ?t = "task_steps during (skip_announced n s)"
  let ?u = "task_steps [] (skip_announced n s)"
  from assms have pos: "0 < n" by (cases "remaining s") auto
  have skip: "skip_links admin admin n ocs s =
      clear_queue admin admin (task_steps ocs (skip_announced n s))" for ocs
    using assms pos by (simp add: skip_links_def)
  have same: "current_batch.truncate (clear_queue admin admin t) =
      current_batch.truncate (clear_queue admin admin s) \<and>
      processed (clear_queue admin admin t) = 0 \<and>
      processing_task (clear_queue admin admin t) = No_Task"
    if "remaining t \<noteq> []" for t
  proof -
    have "processed (clear_queue admin admin t) = 0"
      using that by (simp add: clear_queue_def reset_batch_def send_def Let_def)
    with clear_queue_resets [OF that, of admin] clear_queue_resets [OF assms(3), of admin]
    show ?thesis by simp
  qed
  have full: "remaining ?t \<noteq> [] \<longrightarrow>
        current_batch.truncate (skip_links admin admin n during s) =
          current_batch.truncate (clear_queue admin admin s) \<and>
        processed (skip_links admin admin n during s) = 0 \<and>
        processing_task (skip_links admin admin n during s) = No_Task"
    using same [of ?t] by (simp only: skip) blast
  have empty: "remaining ?t = [] \<longrightarrow>
        skip_links admin admin n during s = send (Reply Already_Empty) ?t"
    by (simp add: skip clear_queue_def)
  have "remaining ?u \<noteq> []"
    using assms(3) by (simp add: skip_announced_def send_def)
  from same [OF this]
  have now: "current_batch.truncate (skip_links admin admin n [] s) =
       current_batch.truncate (clear_queue admin admin s) \<and>
     processed (skip_links admin admin n [] s) = 0 \<and>
     processing_task (skip_links admin admin n [] s) = No_Task"
    by (simp only: skip)
  from full empty now show ?thesis
    unfolding assms(1) Let_def by blast
qed

theorem skip_all_is_clear_witness:
  "is_processing in_flight_x \<and> remaining in_flight_x \<noteq> [] \<and>
   (2::int) \<ge> int (length (remaining in_flight_x)) \<and>
   current_batch.truncate (skip_links 1 1 2 [] in_flight_x) =
     current_batch.truncate (clear_queue 1 1 in_flight_x) \<and>
   processed (skip_links 1 1 2 [] in_flight_x) = 0 \<and>
   processing_task (skip_links 1 1 2 [] in_flight_x) = No_Task \<and>
   is_processing in_flight_last \<and> remaining in_flight_last = [''http://a''] \<and>
   remaining (task_steps [Published] (skip_announced 1 in_flight_last)) = [] \<and>
   skip_links 1 1 1 [Published] in_flight_last =
     send (Reply Already_Empty) (task_steps [Published] (skip_announced 1 in_flight_last)) \<and>
   processed (task_steps [Published] (skip_announced 1 in_flight_last)) = 1 \<and>
   all_links (task_steps [Published] (skip_announced 1 in_flight_last)) = [''http://a'']"
proof -
  have a: "is_processing in_flight_x" "remaining in_flight_x \<noteq> []"
      "(2::int) \<ge> int (length (remaining in_flight_x))"
    by (simp_all add: in_flight_x_eq)
  have b: "is_processing in_flight_last" "remaining in_flight_last = [''http://a'']"
    by (simp_all add: in_flight_last_def run_defs)
  have b': "remaining in_flight_last \<noteq> []" "(1::int) \<ge> int (length (remaining in_flight_last))"
    by (simp_all add: b)
  have c: "remaining (task_steps [Published] (skip_announced 1 in_flight_last)) = []"
    by (simp add: in_flight_last_def run_defs)
  have d: "processed (task_steps [Published] (skip_announced 1 in_flight_last)) = 1"
      "all_links (task_steps [Published] (skip_announced 1 in_flight_last)) = [''http://a'']"
    by (simp_all add: in_flight_last_def run_defs)
  from skip_all_is_clear [of 1 1 in_flight_x 2 "[]", OF refl a]
  have e: "current_batch.truncate (skip_links 1 1 2 [] in_flight_x) =
       current_batch.truncate (clear_queue 1 1 in_flight_x) \<and>
     processed (skip_links 1 1 2 [] in_flight_x) = 0 \<and>
     processing_task (skip_links 1 1 2 [] in_flight_x) = No_Task"
    unfolding Let_def by blast
  from skip_all_is_clear [of 1 1 in_flight_last 1 "[Published]", OF refl b(1) b'] c
  have f: "skip_links 1 1 1 [Published] in_flight_last =
     send (Reply Already_Empty) (task_steps [Published] (skip_announced 1 in_flight_last))"
    unfolding Let_def by blast
  from a b c d e f show ?thesis by blast
qed

subsection \<open>Links without a scheme\<close>

lemma malformed_at_head_eq:
  "malformed_at_head =
     \<lparr>all_links = [''http://a'', ''not-a-url'', ''http://b''], processed = 1, failed = [],
      remaining = [''not-a-url'', ''http://b''], start_time = Some Now, user_id = Some 1,
      last_processed_link = Some ''http://a'', is_processing = True, is_paused = False,
      status_message_id = None, last_auto_send = 0, caption_settings = no_caption,
      processing_task = At_Head,
      outbox = [Reply (Batch_Started 3), Status_Message (Downloading ''http://a''),
        Status_Edit 2 (Preparing_Upload ''http://a''), Status_Edit 2 (Uploading ''http://a''),
        Video ''http://a'' None True, Completion ''http://a'' True [] 1]\<rparr>"
  by (simp add: malformed_at_head_def run_defs)

text \<open>
  C7. The task is at the head of the loop, or wakes up in the pause loop, the batch is
  neither paused nor cancelled, and the first link of \<^verbatim>\<open>remaining\<close> starts with neither
  \<^verbatim>\<open>http://\<close> nor \<^verbatim>\<open>https://\<close>. The step removes that link and goes back to the head of
  the loop; nothing else changes: no download is started, \<^verbatim>\<open>failed\<close>, \<^verbatim>\<open>processed\<close> and
  the calls made stay as they were. And the batch \<^verbatim>\<open>http://a\<close>, \<^verbatim>\<open>not-a-url\<close>,
  \<^verbatim>\<open>http://b\<close>, both uploads succeeding, runs to its end with exactly two completion
  messages and \<^verbatim>\<open>processed = 2\<close>.
\<close>

theorem malformed_link_dropped:
  "((processing_task s = At_Head \<or> processing_task s = Parked) \<and> remaining s = url # rest \<and>
    \<not> is_paused s \<and> is_processing s \<and> \<not> valid_scheme url \<longrightarrow>
      process_batch_step oc s = s\<lparr>remaining := rest, processing_task := At_Head\<rparr>) \<and>
   map_option (\<lambda>s'. (processed s', filter is_completion (outbox s')))
     (process_batch_run 6 [Published, Published]
        (add_links_to_queue uid [''http://a'', ''not-a-url'', ''http://b''] during init)) =
     Some (2, [Completion ''http://a'' True [] 1, Completion ''http://b'' True [] 2])"
proof (rule conjI)
  show "(processing_task s = At_Head \<or> processing_task s = Parked) \<and> remaining s = url # rest \<and>
    \<not> is_paused s \<and> is_processing s \<and> \<not> valid_scheme url \<longrightarrow>
      process_batch_step oc s = s\<lparr>remaining := rest, processing_task := At_Head\<rparr>"
    by (auto simp add: process_batch_step_def loop_head_def loop_parked_def loop_body_def)
next
  show "map_option (\<lambda>s'. (processed s', filter is_completion (outbox s')))
     (process_batch_run 6 [Published, Published]
        (add_links_to_queue uid [''http://a'', ''not-a-url'', ''http://b''] during init)) =
     Some (2, [Completion ''http://a'' True [] 1, Completion ''http://b'' True [] 2])"
    by (simp add: numeral_eq_Suc run_defs)
qed

theorem malformed_link_dropped_witness:
  "processing_task malformed_at_head = At_Head \<and>
   remaining malformed_at_head = [''not-a-url'', ''http://b''] \<and>
   \<not> valid_scheme ''not-a-url'' \<and>
   process_batch_step Published malformed_at_head =
     malformed_at_head\<lparr>remaining := [''http://b''], processing_task := At_Head\<rparr>"
  using malformed_link_dropped [of malformed_at_head "''not-a-url''" "[''http://b'']" Published]
  by (simp add: malformed_at_head_eq valid_scheme_def)

subsection \<open>Paused and active\<close>

lemma single_link_rest_flags:
  "is_paused (single_link_rest url oc s) = is_paused s"
  "is_processing (single_link_rest url oc s) = is_processing s"
  by (cases oc; simp add: single_link_rest_def link_failed_eq before_upload_def
        handle_caption_def update_status_message_eq send_completion_notification_eq send_def
        Let_def)+

lemmas step_defs = process_batch_step_def loop_head_def loop_parked_def loop_body_def
  loop_exit_def loop_fatal_def loop_finally_def loop_item_done_def single_link_start_def
  update_status_message_eq send_def single_link_rest_flags Let_def

lemma step_is_paused: "is_paused (process_batch_step oc s) = is_paused s"
  by (cases "processing_task s") (simp_all add: step_defs split: list.splits)

lemma step_is_processing:
  "processing_task (process_batch_step oc s) \<noteq> No_Task \<Longrightarrow>
   is_processing (process_batch_step oc s) = is_processing s"
  by (cases "processing_task s") (simp_all add: step_defs split: list.splits if_splits)

lemma step_exit:
  "processing_task s \<noteq> No_Task \<Longrightarrow> processing_task (process_batch_step oc s) = No_Task \<Longrightarrow>
   \<not> is_processing (process_batch_step oc s)"
  by (cases "processing_task s") (simp_all add: step_defs split: list.splits if_splits)

text \<open>
  C6 as stated fails. One link is queued and in flight, \<^verbatim>\<open>/stopnow\<close> arrives, the upload
  succeeds, the queue is empty and the loop ends: the \<^verbatim>\<open>finally\<close> of \<^verbatim>\<open>process_batch\<close>
  clears \<^verbatim>\<open>is_processing\<close> and leaves \<^verbatim>\<open>is_paused\<close> set.
\<close>

theorem paused_and_inactive_reached:
  "is_paused exited_while_paused \<and> \<not> is_processing exited_while_paused"
  by (simp add: exited_while_paused_def in_flight_last_def run_defs)

text \<open>
  C6, as the code has it. Every command (pause, resume, clear, skip, enqueue, set-caption,
  query-remaining) keeps \<^verbatim>\<open>is_paused\<close> implying \<^verbatim>\<open>is_processing\<close>, and so does every step
  of the task that does not end it; for skip and enqueue, during whose reply the task may
  run, this holds whenever the steps taken meanwhile have kept it, and so whenever there
  are none. No step of the task changes \<^verbatim>\<open>is_paused\<close>, and neither does its cancellation.
  The step that ends the task (the queue is empty, the batch is cancelled, or an error
  leaves the loop) clears \<^verbatim>\<open>is_processing\<close>, and so does \<^verbatim>\<open>task.cancel()\<close> on a task that
  is alive, after which the task is done: a loop that ends while the batch is paused
  leaves it paused and inactive. From a paused and inactive state \<^verbatim>\<open>/startnow\<close> from the
  operator clears \<^verbatim>\<open>is_paused\<close>, sets \<^verbatim>\<open>is_processing\<close> and starts a new task at the head
  of the loop.
\<close>

theorem commands_keep_paused_active:
  "(paused_implies_active s \<longrightarrow>
      paused_implies_active (pause_processing admin uid s) \<and>
      paused_implies_active (resume_processing admin uid s) \<and>
      paused_implies_active (clear_queue admin uid s) \<and>
      paused_implies_active (set_caption admin uid c x s) \<and>
      paused_implies_active (show_remain admin uid s) \<and>
      (paused_implies_active (task_steps during (skip_announced n s)) \<longrightarrow>
         paused_implies_active (skip_links admin uid n during s)) \<and>
      (paused_implies_active (task_steps during (append_links links s)) \<longrightarrow>
         paused_implies_active (add_links_to_queue uid links during s)) \<and>
      paused_implies_active (skip_links admin uid n [] s) \<and>
      paused_implies_active (add_links_to_queue uid links [] s) \<and>
      (processing_task (process_batch_step oc s) \<noteq> No_Task \<longrightarrow>
         paused_implies_active (process_batch_step oc s))) \<and>
   is_paused (process_batch_step oc s) = is_paused s \<and>
   (processing_task s \<noteq> No_Task \<and> processing_task (process_batch_step oc s) = No_Task \<longrightarrow>
      \<not> is_processing (process_batch_step oc s)) \<and>
   is_paused (cancel_task s) = is_paused s \<and>
   processing_task (cancel_task s) = No_Task \<and>
   (processing_task s \<noteq> No_Task \<longrightarrow> \<not> is_processing (cancel_task s)) \<and>
   (uid = admin \<and> is_paused s \<and> \<not> is_processing s \<longrightarrow>
      \<not> is_paused (resume_processing admin uid s) \<and>
      is_processing (resume_processing admin uid s) \<and>
      processing_task (resume_processing admin uid s) = At_Head)"
proof -
  have skip: "paused_implies_active (skip_links admin uid n ocs s)"
    if "paused_implies_active s" and "paused_implies_active (task_steps ocs (skip_announced n s))"
    for ocs
    using that
    by (auto simp add: paused_implies_active_def skip_links_def clear_queue_def reset_batch_def
        cancel_task_def loop_finally_def create_task_def send_def Let_def)
  have add: "paused_implies_active (add_links_to_queue uid links ocs s)"
    if "paused_implies_active s" and "paused_implies_active (task_steps ocs (append_links links s))"
    for ocs
    using that
    by (auto simp add: paused_implies_active_def add_links_to_queue_def create_task_def send_def
        Let_def)
  have announced: "paused_implies_active (task_steps [] (skip_announced n s))"
    if "paused_implies_active s"
    using that by (simp add: paused_implies_active_def skip_announced_def send_def)
  have appended: "paused_implies_active (task_steps [] (append_links links s))"
    if "paused_implies_active s"
    using that by (simp add: paused_implies_active_def append_links_def send_def Let_def)
  have commands: "paused_implies_active s \<longrightarrow>
      paused_implies_active (pause_processing admin uid s) \<and>
      paused_implies_active (resume_processing admin uid s) \<and>
      paused_implies_active (clear_queue admin uid s) \<and>
      paused_implies_active (set_caption admin uid c x s) \<and>
      paused_implies_active (show_remain admin uid s) \<and>
      (paused_implies_active (task_steps during (skip_announced n s)) \<longrightarrow>
         paused_implies_active (skip_links admin uid n during s)) \<and>
      (paused_implies_active (task_steps during (append_links links s)) \<longrightarrow>
         paused_implies_active (add_links_to_queue uid links during s)) \<and>
      paused_implies_active (skip_links admin uid n [] s) \<and>
      paused_implies_active (add_links_to_queue uid links [] s) \<and>
      (processing_task (process_batch_step oc s) \<noteq> No_Task \<longrightarrow>
         paused_implies_active (process_batch_step oc s))"
  proof
    assume inv: "paused_implies_active s"
    have 1: "paused_implies_active (pause_processing admin uid s)"
      using inv
      by (simp add: paused_implies_active_def pause_processing_def send_def
          update_status_message_eq)
    have 2: "paused_implies_active (resume_processing admin uid s)"
      using inv
      by (simp add: paused_implies_active_def resume_processing_def send_def
          update_status_message_eq create_task_def Let_def)
    have 3: "paused_implies_active (clear_queue admin uid s)"
      using inv
      by (simp add: paused_implies_active_def clear_queue_def reset_batch_def cancel_task_def
          loop_finally_def send_def Let_def)
    have 4: "paused_implies_active (set_caption admin uid c x s)"
      using inv by (simp add: paused_implies_active_def set_caption_def send_def)
    have 5: "paused_implies_active (show_remain admin uid s)"
      using inv by (simp add: paused_implies_active_def show_remain_def send_def)
    have 6: "processing_task (process_batch_step oc s) \<noteq> No_Task \<longrightarrow>
        paused_implies_active (process_batch_step oc s)"
      using inv by (simp add: paused_implies_active_def step_is_paused step_is_processing)
    from 1 2 3 4 5 6 skip [OF inv] add [OF inv] announced [OF inv] appended [OF inv]
    show "paused_implies_active (pause_processing admin uid s) \<and>
      paused_implies_active (resume_processing admin uid s) \<and>
      paused_implies_active (clear_queue admin uid s) \<and>
      paused_implies_active (set_caption admin uid c x s) \<and>
      paused_implies_active (show_remain admin uid s) \<and>
      (paused_implies_active (task_steps during (skip_announced n s)) \<longrightarrow>
         paused_implies_active (skip_links admin uid n during s)) \<and>
      (paused_implies_active (task_steps during (append_links links s)) \<longrightarrow>
         paused_implies_active (add_links_to_queue uid links during s)) \<and>
      paused_implies_active (skip_links admin uid n [] s) \<and>
      paused_implies_active (add_links_to_queue uid links [] s) \<and>
      (processing_task (process_batch_step oc s) \<noteq> No_Task \<longrightarrow>
         paused_implies_active (process_batch_step oc s))"
      by blast
  qed
  have cancel: "is_paused (cancel_task s) = is_paused s \<and>
      processing_task (cancel_task s) = No_Task \<and>
      (processing_task s \<noteq> No_Task \<longrightarrow> \<not> is_processing (cancel_task s))"
    by (simp add: cancel_task_def loop_finally_def)
  have resume: "uid = admin \<and> is_paused s \<and> \<not> is_processing s \<longrightarrow>
      \<not> is_paused (resume_processing admin uid s) \<and>
      is_processing (resume_processing admin uid s) \<and>
      processing_task (resume_processing admin uid s) = At_Head"
    by (simp add: resume_processing_def send_def update_status_message_eq create_task_def Let_def)
  from commands cancel resume step_exit [of s oc] show ?thesis
    by (simp add: step_is_paused)
qed

theorem commands_keep_paused_active_witness:
  "paused_implies_active (pause_processing 1 1 in_flight_x) \<and>
   is_paused (pause_processing 1 1 in_flight_x) \<and>
   paused_implies_active (process_batch_step Published (pause_processing 1 1 in_flight_x)) \<and>
   paused_implies_active (resume_processing 1 1 (pause_processing 1 1 in_flight_x)) \<and>
   processing_task in_flight_x \<noteq> No_Task \<and> \<not> is_processing (cancel_task in_flight_x) \<and>
   is_paused exited_while_paused \<and> \<not> is_processing exited_while_paused \<and>
   \<not> is_paused (resume_processing 1 1 exited_while_paused) \<and>
   is_processing (resume_processing 1 1 exited_while_paused) \<and>
   processing_task (resume_processing 1 1 exited_while_paused) = At_Head"
proof -
  have a: "paused_implies_active (pause_processing 1 1 in_flight_x)"
    by (simp add: paused_implies_active_def in_flight_x_eq run_defs)
  have b: "is_paused (pause_processing 1 1 in_flight_x)"
    by (simp add: in_flight_x_eq run_defs)
  have c: "processing_task (process_batch_step Published (pause_processing 1 1 in_flight_x)) \<noteq> No_Task"
    by (simp add: in_flight_x_eq run_defs)
  have d: "processing_task in_flight_x \<noteq> No_Task"
    by (simp add: in_flight_x_eq)
  have e: "is_paused exited_while_paused \<and> \<not> is_processing exited_while_paused"
    by (simp add: exited_while_paused_def in_flight_last_def run_defs)
  from a b c d e
    commands_keep_paused_active [of "pause_processing 1 1 in_flight_x" 1 1 0 "[]" "[]" 0 "[]" Published]
    commands_keep_paused_active [of in_flight_x 1 1 0 "[]" "[]" 0 "[]" Published]
    commands_keep_paused_active [of exited_while_paused 1 1 0 "[]" "[]" 0 "[]" Published]
  show ?thesis by simp
qed

subsection \<open>The automatic report\<close>

text \<open>
  C2 as stated fails. \<^verbatim>\<open>processed\<close> is 2, \<^verbatim>\<open>/skip 7\<close> makes it 9, and the next attempt
  fails: its completion message goes out at 9, nine more than \<^verbatim>\<open>last_auto_send\<close>, and no
  automatic report was sent, by the skip or after it.
\<close>

theorem no_report_at_nine:
  "processed two_done = 2 \<and> processed seven_skipped = 9 \<and>
   last_auto_send seven_skipped = 0 \<and>
   filter is_completion (emitted seven_skipped tenth_failed) =
     [Completion ''http://9'' False ''Video exceeds 49MB limit'' 9] \<and>
   5 \<le> processed tenth_failed - last_auto_send tenth_failed \<and>
   filter is_remain_file (outbox tenth_failed) = []"
  by (simp add: tenth_failed_def seven_skipped_def two_done_def ten_links_def run_defs)

text \<open>
  C2, as the code has it. \<open>send_completion_notification\<close> sends one completion message,
  and after it the automatic report, the whole of \<^verbatim>\<open>remaining\<close>, exactly when
  \<^verbatim>\<open>processed\<close> is positive and a multiple of 5 (line 209), \<^verbatim>\<open>remaining\<close> is not empty
  and the owner is set (line 475), and \<^verbatim>\<open>processed - last_auto_send\<close> is at least 5
  (line 483); then \<^verbatim>\<open>last_auto_send\<close> becomes \<^verbatim>\<open>processed\<close>, and otherwise it stays. The
  test on the multiple of 5 comes before the watermark. \<open>skip_links\<close> itself sends no
  automatic report (here with no step of the task while it awaits its reply).
\<close>

theorem auto_report_when_multiple_of_five:
  "let s' = send_completion_notification url ok err s;
       due = (0 < processed s \<and> processed s mod 5 = 0 \<and> remaining s \<noteq> [] \<and>
              \<not> user_unset s \<and> 5 \<le> processed s - last_auto_send s)
   in filter is_completion (emitted s s') = [Completion url ok err (processed s)] \<and>
      filter is_remain_file (emitted s s') =
        (if due then [Remain_File (remaining s) (processed s)] else []) \<and>
      last_auto_send s' = (if due then processed s else last_auto_send s) \<and>
      filter is_remain_file (emitted s (skip_links admin uid n [] s)) = []"
  by (simp add: send_completion_notification_eq completion_report_def report_due_def emitted_def
      Let_def skip_links_def skip_announced_def clear_queue_def reset_batch_def cancel_task_def
      loop_finally_def create_task_def send_def)

theorem auto_report_when_multiple_of_five_witness:
  "filter is_remain_file
     (emitted (in_flight_x\<lparr>processed := 5\<rparr>)
        (send_completion_notification ''http://x'' True [] (in_flight_x\<lparr>processed := 5\<rparr>))) =
     [Remain_File [''http://x'', ''http://y''] 5] \<and>
   last_auto_send
     (send_completion_notification ''http://x'' True [] (in_flight_x\<lparr>processed := 5\<rparr>)) = 5 \<and>
   filter is_remain_file
     (emitted (in_flight_x\<lparr>processed := 9\<rparr>)
        (send_completion_notification ''http://x'' True [] (in_flight_x\<lparr>processed := 9\<rparr>))) = []"
  using auto_report_when_multiple_of_five [of "''http://x''" True "[]" "in_flight_x\<lparr>processed := 5\<rparr>" 1 1 1]
    auto_report_when_multiple_of_five [of "''http://x''" True "[]" "in_flight_x\<lparr>processed := 9\<rparr>" 1 1 1]
  by (simp add: in_flight_x_eq Let_def user_unset_def)

subsection \<open>Caption uses\<close>

lemma status_call_not_notice [simp]: "Caption_Disabled \<noteq> status_call ph s"
  by (simp add: status_call_def split: option.splits)

lemma handle_caption_eq:
  "handle_caption s =
     (if cs_active (caption_settings s) then cs_text (caption_settings s) else None,
      s\<lparr>caption_settings :=
           (if cs_active (caption_settings s)
            then (caption_settings s)\<lparr>cs_remaining := cs_remaining (caption_settings s) - 1,
                   cs_active := 1 < cs_remaining (caption_settings s)\<rparr>
            else caption_settings s),
        outbox := outbox s @
           (if cs_active (caption_settings s) \<and> cs_remaining (caption_settings s) \<le> 1
            then [Caption_Disabled] else [])\<rparr>)"
  by (simp add: handle_caption_def Let_def send_def)

lemmas single_link_eqs = process_single_link_def single_link_start_def single_link_rest_def
  link_failed_eq before_upload_def handle_caption_eq update_status_message_eq
  send_completion_notification_eq send_def Let_def

lemma single_link_caption:
  "caption_settings (process_single_link url oc s) =
     (if cs_active (caption_settings s) \<and> reaches_upload oc
      then (caption_settings s)\<lparr>cs_remaining := cs_remaining (caption_settings s) - 1,
             cs_active := 1 < cs_remaining (caption_settings s)\<rparr>
      else caption_settings s)"
  by (cases oc) (simp_all add: single_link_eqs)

lemma single_link_video:
  "filter is_video (emitted s (process_single_link url oc s)) =
     (if reaches_upload oc
      then [Video url (if cs_active (caption_settings s) then cs_text (caption_settings s) else None)
              (oc = Published)]
      else [])"
  by (cases oc) (simp_all add: single_link_eqs emitted_def)

lemma single_link_notice:
  "filter ((=) Caption_Disabled) (emitted s (process_single_link url oc s)) =
     (if cs_active (caption_settings s) \<and> reaches_upload oc \<and>
         cs_remaining (caption_settings s) \<le> 1
      then [Caption_Disabled] else [])"
  by (cases oc) (simp_all add: single_link_eqs emitted_def)

lemma set_caption_settings:
  "0 < c \<Longrightarrow> caption_settings (set_caption admin admin c x s) =
     \<lparr>cs_active = True, cs_remaining = c, cs_text = Some x\<rparr>"
  by (simp add: set_caption_def send_def)

text \<open>
  C3 as stated fails. \<^verbatim>\<open>/cap 3 X\<close> is in force and \<^verbatim>\<open>send_video\<close> raises for
  \<^verbatim>\<open>http://x\<close>: the link is in \<^verbatim>\<open>failed\<close>, nothing was published, and one of the three
  uses is gone.
\<close>

theorem failed_upload_consumes_caption:
  "cs_remaining (caption_settings caption_set_in_flight) = 3 \<and>
   failed (process_batch_step (Publish_Fails ''Timed out'') caption_set_in_flight) = [''http://x''] \<and>
   processed (process_batch_step (Publish_Fails ''Timed out'') caption_set_in_flight) = 0 \<and>
   cs_remaining (caption_settings
     (process_batch_step (Publish_Fails ''Timed out'') caption_set_in_flight)) = 2"
  by (simp add: caption_set_in_flight_def in_flight_x_eq run_defs)

text \<open>
  C3, as the code has it. For every attempt: the caption settings change exactly when
  the policy is active and the attempt reaches the upload (\<^verbatim>\<open>send_video\<close> returns or
  raises), and then \<^verbatim>\<open>remaining\<close> is decremented and the policy stays active only while
  uses are left; a failed download, a missing file or a failing \<^verbatim>\<open>open\<close> changes nothing.
  The one call of \<^verbatim>\<open>send_video\<close> of such an attempt carries the caption text when the
  policy was active, and no caption otherwise. The notice that caption mode is disabled is
  sent once, by the attempt that takes the last use. After \<^verbatim>\<open>/cap 3 x\<close> from the operator
  and four attempts that are published, the first three videos carry \<open>x\<close>, the fourth
  carries no caption, and the notice is sent exactly once, during the third.
\<close>

theorem caption_use_per_upload:
  "caption_settings (process_single_link url oc s) =
     (if cs_active (caption_settings s) \<and> reaches_upload oc
      then (caption_settings s)\<lparr>cs_remaining := cs_remaining (caption_settings s) - 1,
             cs_active := 1 < cs_remaining (caption_settings s)\<rparr>
      else caption_settings s) \<and>
   filter is_video (emitted s (process_single_link url oc s)) =
     (if reaches_upload oc
      then [Video url (if cs_active (caption_settings s) then cs_text (caption_settings s) else None)
              (oc = Published)]
      else []) \<and>
   filter ((=) Caption_Disabled) (emitted s (process_single_link url oc s)) =
     (if cs_active (caption_settings s) \<and> reaches_upload oc \<and>
         cs_remaining (caption_settings s) \<le> 1
      then [Caption_Disabled] else []) \<and>
   (let s0 = set_caption admin admin 3 x s;
        s1 = process_single_link u1 Published s0;
        s2 = process_single_link u2 Published s1;
        s3 = process_single_link u3 Published s2;
        s4 = process_single_link u4 Published s3
    in filter is_video (emitted s0 s1) = [Video u1 (Some x) True] \<and>
       filter is_video (emitted s1 s2) = [Video u2 (Some x) True] \<and>
       filter is_video (emitted s2 s3) = [Video u3 (Some x) True] \<and>
       filter is_video (emitted s3 s4) = [Video u4 None True] \<and>
       filter ((=) Caption_Disabled) (emitted s0 s1) = [] \<and>
       filter ((=) Caption_Disabled) (emitted s1 s2) = [] \<and>
       filter ((=) Caption_Disabled) (emitted s2 s3) = [Caption_Disabled] \<and>
       filter ((=) Caption_Disabled) (emitted s3 s4) = [])"
  by (simp add: single_link_caption single_link_video single_link_notice set_caption_settings
      Let_def)

theorem caption_use_per_upload_witness:
  "cs_active (caption_settings caption_set_in_flight) \<and>
   caption_settings (process_single_link ''http://x'' Published caption_set_in_flight) =
     \<lparr>cs_active = True, cs_remaining = 2, cs_text = Some ''X''\<rparr> \<and>
   caption_settings (process_single_link ''http://x'' Fetch_None caption_set_in_flight) =
     \<lparr>cs_active = True, cs_remaining = 3, cs_text = Some ''X''\<rparr> \<and>
   filter is_video
     (emitted caption_set_in_flight
        (process_single_link ''http://x'' Published caption_set_in_flight)) =
     [Video ''http://x'' (Some ''X'') True]"
  using caption_use_per_upload [of "''http://x''" Published caption_set_in_flight]
    caption_use_per_upload [of "''http://x''" Fetch_None caption_set_in_flight]
  by (simp add: caption_set_in_flight_def in_flight_x_eq set_caption_def send_def)

subsection \<open>The guard of the automatic report\<close>

text \<open>
  C10 as stated fails in its consequence. Five links, all published: when the fifth
  completion is sent the fifth link is still in \<^verbatim>\<open>remaining\<close> (line 647 removes it after
  \<open>process_single_link\<close> returns), so the guard of line 475 does not fire and one
  automatic report is sent, listing that link.
\<close>

theorem five_items_one_report:
  "map_option (\<lambda>s. (remaining s, filter is_remain_file (outbox s))) five_published =
     Some ([], [Remain_File [''http://5''] 5])"
  by (simp add: five_published_def numeral_eq_Suc run_defs)

text \<open>
  C10, as the code has it. When \<^verbatim>\<open>remaining\<close> is empty or the owner is unset,
  \<open>send_remain_links\<close> returns the state as it is: nothing is sent and
  \<^verbatim>\<open>last_auto_send\<close> keeps its value, whatever \<^verbatim>\<open>processed - last_auto_send\<close> is. In the
  loop the guard on \<^verbatim>\<open>remaining\<close> does not fire at a completion, because the link just
  completed is removed only afterwards: a batch of exactly five links with a scheme, all
  published, for an owner other than 0, sends exactly one automatic report, at the fifth
  completion, and it lists the fifth link.
\<close>

theorem empty_queue_no_report:
  "(remaining s = [] \<or> user_unset s \<longrightarrow> send_remain_links s = s) \<and>
   (valid_scheme u1 \<and> valid_scheme u2 \<and> valid_scheme u3 \<and> valid_scheme u4 \<and> valid_scheme u5 \<and>
    uid \<noteq> 0 \<longrightarrow>
      map_option (\<lambda>s'. filter is_remain_file (outbox s'))
        (process_batch_run 11 (replicate 5 Published)
           (add_links_to_queue uid [u1, u2, u3, u4, u5] during init)) =
        Some [Remain_File [u5] 5])"
proof (rule conjI)
  show "remaining s = [] \<or> user_unset s \<longrightarrow> send_remain_links s = s"
    by (simp add: send_remain_links_def)
next
  show "valid_scheme u1 \<and> valid_scheme u2 \<and> valid_scheme u3 \<and> valid_scheme u4 \<and> valid_scheme u5 \<and>
    uid \<noteq> 0 \<longrightarrow>
      map_option (\<lambda>s'. filter is_remain_file (outbox s'))
        (process_batch_run 11 (replicate 5 Published)
           (add_links_to_queue uid [u1, u2, u3, u4, u5] during init)) =
        Some [Remain_File [u5] 5]"
    by (simp add: numeral_eq_Suc init_def no_caption_def send_def user_unset_def new_status_def
        update_status_message_def send_remain_links_def send_completion_notification_def
        single_link_start_def handle_caption_def before_upload_def single_link_rest_def
        loop_finally_def loop_exit_def loop_body_def loop_head_def loop_item_done_def
        process_batch_step_def create_task_def add_links_to_queue_def Let_def)
qed

theorem empty_queue_no_report_witness:
  "user_unset init \<and> send_remain_links (init\<lparr>processed := 5\<rparr>) = init\<lparr>processed := 5\<rparr> \<and>
   map_option (\<lambda>s'. filter is_remain_file (outbox s'))
     (process_batch_run 11 (replicate 5 Published)
        (add_links_to_queue 7 [''http://1'', ''https://2'', ''http://3'', ''https://4'', ''http://5'']
           [] init)) =
     Some [Remain_File [''http://5''] 5]"
  using empty_queue_no_report [of "init\<lparr>processed := 5\<rparr>" "''http://1''" "''https://2''"
      "''http://3''" "''https://4''" "''http://5''" 7 "[]"]
  by (simp add: init_def user_unset_def valid_scheme_def)

end
